theory Spec2Isabelle
  imports
    Main
    "HOL-Library.Char_ord"
    "HOL-Library.List_Lexorder"
    "HOL-Library.AList"
    "HOL-Library.Log_Nat"
begin

section \<open>The background-removal pipeline of \<^verbatim>\<open>sticker_maker/background.py\<close>\<close>

text \<open>
  The pipeline drives external programs (ffmpeg, ffprobe), an external library (rembg),
  the file system and a caller-supplied logging sink. The embedding makes each of them
  explicit:
  \<^item> the external collaborators are the fields of an environment record \<open>env\<close>;
  \<^item> the file system and the chronological list of observable effects (log lines,
    processes run, files read and written, calls of the removal capability) form the
    state \<open>world\<close>, passed through every function;
  \<^item> every \<^verbatim>\<open>raise\<close> is a value \<open>Inl e\<close>; \<open>BackgroundRemovalError\<close> is the one typed
    error of the module, told apart by its message, and \<open>Untyped\<close> carries the Python
    exceptions the module does not catch.
  Strings are lists of characters with code points below 256. Paths are the lists of
  their components below the root. A directory is the association list of its file
  names and their contents, and exists as soon as it is named, so \<open>mkdir\<close> leaves no
  mark on the world. Of the failures of the file system only the read of a missing file
  is modelled. The removal capability, once imported, is a total function on bytes.
\<close>

subsection \<open>Errors, log lines and effects\<close>

datatype pyexc =
    ValueError | ZeroDivisionError | OverflowError | TypeError | AttributeError
  | KeyError | IndexError | JSONDecodeError | FileNotFoundError | MemoryError

type_synonym path = "string list"
type_synonym bytes = "nat list"

text \<open>The messages of \<open>BackgroundRemovalError\<close>, one constructor for each raise site's text.\<close>

datatype reason =
    ToolNotFound string      \<comment> \<open>"ffmpeg ... / ffprobe ..." not found on the search path\<close>
  | FfmpegFailed int         \<comment> \<open>ffmpeg ended with an error (code N)\<close>
  | ProbeFailed int          \<comment> \<open>the FPS could not be determined (code N)\<close>
  | RembgMissing             \<comment> \<open>the rembg library is not installed\<close>
  | NoFramesProduced         \<comment> \<open>ffmpeg created no frame\<close>
  | NoFramesToCompose path   \<comment> \<open>no frames found to assemble the video\<close>

datatype error = BackgroundRemovalError reason | Untyped pyexc

datatype pyfloat = Finite rat | Infinite bool | NaN

datatype json =
    JNull | JBool bool | JInt int | JFloat pyfloat | JString string
  | JArray "json list" | JObject "(string \<times> json) list"

text \<open>The lines handed to the logging sink, one constructor for each call of \<open>log\<close>.\<close>

datatype logmsg =
    LogStart path               \<comment> \<open>start of the removal for a source\<close>
  | LogRunFfmpeg "string list"  \<comment> \<open>the ffmpeg command line\<close>
  | LogProbe "string list"      \<comment> \<open>the ffprobe command line\<close>
  | LogRaw string               \<comment> \<open>a captured stream, forwarded as it is\<close>
  | LogFpsFallback json         \<comment> \<open>the warning: value not convertible, 30 is used\<close>
  | LogFps rat                  \<comment> \<open>the FPS of the source\<close>
  | LogImageStart path
  | LogImageDone path
  | LogFrame nat nat string     \<comment> \<open>frame index / total: file name\<close>
  | LogVideoSaved path

datatype event =
    Log logmsg
  | Exec "string list" int      \<comment> \<open>a process run to its end, with its exit code\<close>
  | ReadBytes path
  | Remove bytes                \<comment> \<open>a call of rembg's \<open>remove\<close>\<close>
  | WriteBytes path bytes

type_synonym fs = "path \<Rightarrow> (string \<times> bytes) list"

record world =
  files :: fs
  trace :: "event list"

record proc =
  returncode :: int
  stdout :: string
  stderr :: string

record env =
  which :: "string \<Rightarrow> bool"                        \<comment> \<open>\<open>shutil.which(tool) is not None\<close>\<close>
  exec :: "string list \<Rightarrow> fs \<Rightarrow> proc \<times> fs"          \<comment> \<open>\<open>subprocess.run\<close>, capturing both streams\<close>
  json_loads :: "string \<Rightarrow> json option"              \<comment> \<open>\<open>json.loads\<close>; None is JSONDecodeError\<close>
  rembg :: "(bytes \<Rightarrow> bytes) option"                 \<comment> \<open>\<open>from rembg import remove\<close>; None is ImportError\<close>
  resolve :: "path \<Rightarrow> path"                         \<comment> \<open>\<open>Path.resolve\<close>\<close>
  max_str_digits :: nat     \<comment> \<open>\<open>sys.get_int_max_str_digits()\<close>: 4300 by default, 0 for no limit\<close>
  underscores :: bool       \<comment> \<open>\<open>Fraction\<close> accepts underscores between digits (Python 3.11 on)\<close>
  slash_blanks :: bool      \<comment> \<open>\<open>Fraction\<close> accepts blanks around the slash (Python 3.12 on)\<close>
  max_power :: nat          \<comment> \<open>the largest \<open>n\<close> for which memory holds \<open>10 ** n\<close>\<close>

definition log :: "logmsg \<Rightarrow> world \<Rightarrow> world" where
  "log m s = s\<lparr>trace := trace s @ [Log m]\<rparr>"

definition subprocess_run :: "env \<Rightarrow> string list \<Rightarrow> world \<Rightarrow> proc \<times> world" where
  "subprocess_run e command s =
     (let (p, fs') = exec e command (files s)
      in (p, s\<lparr>files := fs', trace := trace s @ [Exec command (returncode p)]\<rparr>))"

subsection \<open>Paths and the file system\<close>

definition path_str :: "path \<Rightarrow> string" where
  "path_str p = (if p = [] then ''/'' else concat (map (\<lambda>c. CHR ''/'' # c) p))"

definition path_name :: "path \<Rightarrow> string" where
  "path_name p = (if p = [] then [] else last p)"

text \<open>
  \<open>PurePath.suffix\<close> and \<open>PurePath.stem\<close>: with \<open>i = name.rfind('.')\<close>, the suffix is
  \<open>name[i:]\<close> and the stem \<open>name[:i]\<close> when \<open>0 < i < len(name) - 1\<close>; otherwise the suffix
  is empty and the stem is the name.
\<close>

definition rfind_dot :: "string \<Rightarrow> nat option" where
  "rfind_dot name =
     (let k = length (takeWhile (\<lambda>c. c \<noteq> CHR ''.'') (rev name))
      in if k = length name then None else Some (length name - 1 - k))"

definition suffix :: "path \<Rightarrow> string" where
  "suffix p =
     (let name = path_name p
      in case rfind_dot name of
           None \<Rightarrow> []
         | Some i \<Rightarrow> if 0 < i \<and> i + 1 < length name then drop i name else [])"

definition stem :: "path \<Rightarrow> string" where
  "stem p =
     (let name = path_name p
      in case rfind_dot name of
           None \<Rightarrow> name
         | Some i \<Rightarrow> if 0 < i \<and> i + 1 < length name then take i name else name)"

text \<open>
  \<open>str.lower\<close>: the letters A to Z go to a to z. No other character lowers to a letter
  that occurs in a recognized extension, so the rest is left as it is.
\<close>

definition lower_char :: "char \<Rightarrow> char" where
  "lower_char c =
     (case map_of (zip ''ABCDEFGHIJKLMNOPQRSTUVWXYZ'' ''abcdefghijklmnopqrstuvwxyz'') c of
        Some l \<Rightarrow> l
      | None \<Rightarrow> c)"

definition lower :: "string \<Rightarrow> string" where
  "lower s = map lower_char s"

definition IMAGE_EXTENSIONS :: "string list" where
  "IMAGE_EXTENSIONS = [''.png'', ''.jpg'', ''.jpeg'', ''.webp'', ''.bmp'', ''.tiff'', ''.tif'']"

definition read_bytes :: "path \<Rightarrow> world \<Rightarrow> (error + bytes) \<times> world" where
  "read_bytes p s =
     (case map_of (files s (butlast p)) (path_name p) of
        None \<Rightarrow> (Inl (Untyped FileNotFoundError), s)
      | Some d \<Rightarrow> (Inr d, s\<lparr>trace := trace s @ [ReadBytes p]\<rparr>))"

definition write_bytes :: "path \<Rightarrow> bytes \<Rightarrow> world \<Rightarrow> world" where
  "write_bytes p d s =
     s\<lparr>files := (files s)(butlast p := AList.update (path_name p) d (files s (butlast p))),
       trace := trace s @ [WriteBytes p d]\<rparr>"

text \<open>The file names of a directory that match the pattern \<^verbatim>\<open>frame_*.png\<close>.\<close>

definition frame_name :: "string \<Rightarrow> bool" where
  "frame_name n = (take 6 n = ''frame_'' \<and> 10 \<le> length n \<and> drop (length n - 4) n = ''.png'')"

definition glob_frames :: "fs \<Rightarrow> path \<Rightarrow> string list" where
  "glob_frames f d = remdups (filter frame_name (map fst (f d)))"

subsection \<open>\<open>fractions.Fraction\<close> from a string, and \<open>float\<close> of a fraction\<close>

text \<open>
  The constructor matches the whole string against
  \<^verbatim>\<open>\s* [-+]? (?=\d|\.\d) num ( (\s*/\s*denom)? | (\.decimal)? (E[-+]?exp)? ) \s*\<close>
  (ignoring case), where \<open>denom\<close> and \<open>exp\<close> are groups of digits separated by single
  underscores, and \<open>num\<close> and \<open>decimal\<close> are such groups or empty. The grammar depends on
  the version of Python: before 3.12 no blank may stand beside the slash, and before 3.11
  no underscore may stand between digits; the environment says which grammar holds.
  No match is ValueError. Each group is then converted by \<open>int\<close>, which raises ValueError
  for a group of more than 640 digits that exceeds the limit \<open>max_str_digits\<close> (when the
  limit is not 0). The power of ten for the exponent is computed in full, which fails
  for want of memory beyond \<open>max_power\<close>. A zero denominator is ZeroDivisionError.
\<close>

definition is_space :: "char \<Rightarrow> bool" where
  "is_space c =
     (let n = (of_char c :: nat)
      in (9 \<le> n \<and> n \<le> 13) \<or> (28 \<le> n \<and> n \<le> 32) \<or> n = 133 \<or> n = 160)"

definition is_digit :: "char \<Rightarrow> bool" where
  "is_digit c = (48 \<le> (of_char c :: nat) \<and> (of_char c :: nat) \<le> 57)"

definition digit_or_us :: "char \<Rightarrow> bool" where
  "digit_or_us c = (is_digit c \<or> c = CHR ''_'')"

fun digit_groups :: "string \<Rightarrow> bool" where
  "digit_groups [] = False"
| "digit_groups [c] = is_digit c"
| "digit_groups (c # d # cs) =
     (is_digit c \<and> (if d = CHR ''_'' then digit_groups cs else digit_groups (d # cs)))"

text \<open>A group of digits, as the grammar of the environment has it.\<close>

definition groups_ok :: "env \<Rightarrow> string \<Rightarrow> bool" where
  "groups_ok e ds = (if underscores e then digit_groups ds else ds \<noteq> [] \<and> list_all is_digit ds)"

text \<open>\<open>int\<close> refuses the group: it has more digits than the limit allows.\<close>

definition too_long :: "env \<Rightarrow> string \<Rightarrow> bool" where
  "too_long e ds =
     (let n = length (filter is_digit ds)
      in 640 < n \<and> 0 < max_str_digits e \<and> max_str_digits e < n)"

definition int_of_digits :: "string \<Rightarrow> int" where
  "int_of_digits ds = foldl (\<lambda>n c. 10 * n + int (of_char c - 48)) 0 (filter is_digit ds)"

text \<open>The groups of a match: numerator, denominator, decimal part, exponent (empty when absent).\<close>

definition match_tail :: "env \<Rightarrow> string \<Rightarrow> (string \<times> string \<times> string) option" where
  "match_tail e v =
     (let w = (if slash_blanks e then dropWhile is_space v else v)
      in if w \<noteq> [] \<and> hd w = CHR ''/'' then
           (let d = (if slash_blanks e then dropWhile is_space (tl w) else tl w)
            in if groups_ok e d then Some (d, [], []) else None)
         else
           (let (decimal, x) =
                  (if v \<noteq> [] \<and> hd v = CHR ''.''
                   then (takeWhile digit_or_us (tl v), dropWhile digit_or_us (tl v))
                   else ([], v))
            in if decimal = [] \<or> groups_ok e decimal then
                 (if x = [] then Some ([], decimal, [])
                  else if hd x = CHR ''e'' \<or> hd x = CHR ''E'' then
                    (let ex = tl x;
                         ds = (if ex \<noteq> [] \<and> (hd ex = CHR ''-'' \<or> hd ex = CHR ''+'')
                               then tl ex else ex)
                     in if groups_ok e ds then Some ([], decimal, ex) else None)
                  else None)
               else None))"

definition fraction_of_string :: "env \<Rightarrow> string \<Rightarrow> pyexc + rat" where
  "fraction_of_string e s =
     (let t = rev (dropWhile is_space (rev (dropWhile is_space s)));
          neg = (t \<noteq> [] \<and> hd t = CHR ''-'');
          u = (if t \<noteq> [] \<and> (hd t = CHR ''-'' \<or> hd t = CHR ''+'') then tl t else t);
          lookahead =
            (u \<noteq> [] \<and> (is_digit (hd u) \<or> (hd u = CHR ''.'' \<and> tl u \<noteq> [] \<and> is_digit (hd (tl u)))));
          num = takeWhile digit_or_us u
      in if lookahead \<and> (num = [] \<or> groups_ok e num) then
           (case match_tail e (dropWhile digit_or_us u) of
              None \<Rightarrow> Inl ValueError
            | Some (denom, decimal, ex) \<Rightarrow>
                (let ev = (if ex \<noteq> [] \<and> hd ex = CHR ''-'' then - int_of_digits ex
                           else int_of_digits ex)
                 in if too_long e num \<or> too_long e denom \<or> too_long e decimal \<or> too_long e ex
                    then Inl ValueError
                    else if int (max_power e) < \<bar>ev\<bar> then Inl MemoryError
                    else
                      (let n0 = int_of_digits num;
                           (n1, d1) =
                             (if denom \<noteq> [] then (n0, int_of_digits denom)
                              else
                                (let (n, d) =
                                       (if decimal \<noteq> []
                                        then (let scale = 10 ^ length (filter is_digit decimal)
                                              in (n0 * scale + int_of_digits decimal, scale))
                                        else (n0, 1))
                                 in if ex = [] then (n, d)
                                    else if 0 \<le> ev then (n * 10 ^ nat ev, d)
                                    else (n, d * 10 ^ nat (- ev))));
                           numerator = (if neg then - n1 else n1)
                       in if d1 = 0 then Inl ZeroDivisionError else Inr (Fract numerator d1))))
         else Inl ValueError)"

text \<open>
  \<open>Fraction(x)\<close> for the values \<open>json.loads\<close> can return: a string is parsed, an integer
  (a boolean too) and a finite float convert exactly, NaN is ValueError, an infinity is
  OverflowError, and \<open>None\<close>, a list or a dict is TypeError.
\<close>

fun Fraction :: "env \<Rightarrow> json \<Rightarrow> pyexc + rat" where
  "Fraction e (JString s) = fraction_of_string e s"
| "Fraction e (JInt n) = Inr (of_int n)"
| "Fraction e (JBool b) = Inr (if b then 1 else 0)"
| "Fraction e (JFloat (Finite r)) = Inr r"
| "Fraction e (JFloat (Infinite _)) = Inl OverflowError"
| "Fraction e (JFloat NaN) = Inl ValueError"
| "Fraction e JNull = Inl TypeError"
| "Fraction e (JArray _) = Inl TypeError"
| "Fraction e (JObject _) = Inl TypeError"

text \<open>
  \<open>float(fraction)\<close> is the true division \<open>numerator / denominator\<close> of two integers: the
  quotient rounded to the nearest binary64 value, ties to even, and OverflowError when
  that rounding reaches \<open>2 ^ 1024\<close>, which it does from \<open>2 ^ 1024 - 2 ^ 970\<close> on (half a
  unit in the last place above the largest finite value, whose significand is odd).
  A float is modelled by the rational it denotes.
\<close>

definition pow2 :: "int \<Rightarrow> rat" where
  "pow2 e = (if 0 \<le> e then 2 ^ nat e else 1 / 2 ^ nat (- e))"

definition round_half_even :: "rat \<Rightarrow> int" where
  "round_half_even x =
     (let f = \<lfloor>x\<rfloor>; r = x - of_int f
      in if r < 1 / 2 then f else if 1 / 2 < r then f + 1 else if even f then f else f + 1)"

text \<open>For \<open>0 < x\<close>, the exponent \<open>e\<close> with \<open>2 ^ e \<le> x < 2 ^ (e + 1)\<close>.\<close>

definition ilog2 :: "rat \<Rightarrow> int" where
  "ilog2 x =
     (let (p, d) = quotient_of x; k = bitlen p - bitlen d
      in if pow2 k \<le> x then k else k - 1)"

definition round_binary64 :: "rat \<Rightarrow> rat" where
  "round_binary64 q =
     (if q = 0 then 0
      else
        (let a = \<bar>q\<bar>;
             e = ilog2 a;
             s = max e (- 1022) - 52
         in sgn q * (of_int (round_half_even (a / pow2 s)) * pow2 s)))"

definition py_float :: "rat \<Rightarrow> pyexc + rat" where
  "py_float q =
     (if 2 ^ 1024 - 2 ^ 970 \<le> \<bar>q\<bar> then Inl OverflowError else Inr (round_binary64 q))"

text \<open>The format \<^verbatim>\<open>{fps:.3f}\<close>: the value rounded to thousandths, ties to even.\<close>

definition digit_char :: "nat \<Rightarrow> char" where
  "digit_char d = ''0123456789'' ! d"

fun show_nat :: "nat \<Rightarrow> string" where
  "show_nat n =
     (if n < 10 then [digit_char n] else show_nat (n div 10) @ [digit_char (n mod 10)])"

declare show_nat.simps [simp del]

definition format_3f :: "rat \<Rightarrow> string" where
  "format_3f v =
     (let n = nat (round_half_even (\<bar>v\<bar> * 1000))
      in (if v < 0 then ''-'' else []) @ show_nat (n div 1000) @ ''.''
         @ [digit_char (n div 100 mod 10), digit_char (n div 10 mod 10), digit_char (n mod 10)])"


subsection \<open>The Process Runner: \<open>_run_ffmpeg\<close>\<close>

definition run_ffmpeg :: "env \<Rightarrow> string list \<Rightarrow> world \<Rightarrow> (error + unit) \<times> world" where
  "run_ffmpeg e args s =
     (if \<not> which e ''ffmpeg'' then (Inl (BackgroundRemovalError (ToolNotFound ''ffmpeg'')), s)
      else
        (let command = ''ffmpeg'' # ''-y'' # args;
             s1 = log (LogRunFfmpeg command) s;
             (process, s2) = subprocess_run e command s1
         in if returncode process \<noteq> 0 then
              (Inl (BackgroundRemovalError (FfmpegFailed (returncode process))),
               log (LogRaw (stderr process)) (log (LogRaw (stdout process)) s2))
            else (Inr (), s2)))"

subsection \<open>The Rate Prober: \<open>_probe_fps\<close>\<close>

text \<open>Truth value of a decoded JSON value, as \<open>or\<close> tests it.\<close>

fun truthy :: "json \<Rightarrow> bool" where
  "truthy JNull = False"
| "truthy (JBool b) = b"
| "truthy (JInt n) = (n \<noteq> 0)"
| "truthy (JFloat f) = (f \<noteq> Finite 0)"
| "truthy (JString x) = (x \<noteq> [])"
| "truthy (JArray xs) = (xs \<noteq> [])"
| "truthy (JObject kvs) = (kvs \<noteq> [])"

definition py_or :: "json \<Rightarrow> json \<Rightarrow> json" where
  "py_or a b = (if truthy a then a else b)"

text \<open>\<open>x.get(key)\<close>: only a dict has the method; a missing key gives \<open>None\<close>.\<close>

fun dict_get :: "json \<Rightarrow> string \<Rightarrow> pyexc + json" where
  "dict_get (JObject kvs) k = Inr (case map_of kvs k of None \<Rightarrow> JNull | Some v \<Rightarrow> v)"
| "dict_get _ k = Inl AttributeError"

text \<open>\<open>x[0]\<close>.\<close>

fun index0 :: "json \<Rightarrow> pyexc + json" where
  "index0 (JArray (x # xs)) = Inr x"
| "index0 (JArray []) = Inl IndexError"
| "index0 (JString (c # cs)) = Inr (JString [c])"
| "index0 (JString []) = Inl IndexError"
| "index0 (JObject kvs) = Inl KeyError"
| "index0 _ = Inl TypeError"

text \<open>Lines 98 and 99: the \<open>avg_frame_rate\<close> of the first stream, \<^verbatim>\<open>"0/0"\<close> when there is none.\<close>

definition avg_frame_rate_of :: "json \<Rightarrow> pyexc + json" where
  "avg_frame_rate_of data =
     (case dict_get data ''streams'' of
        Inl x \<Rightarrow> Inl x
      | Inr streams \<Rightarrow>
          (case index0 (py_or streams (JArray [JObject []])) of
             Inl x \<Rightarrow> Inl x
           | Inr stream \<Rightarrow>
               (case dict_get stream ''avg_frame_rate'' of
                  Inl x \<Rightarrow> Inl x
                | Inr v \<Rightarrow> Inr (py_or v (JString ''0/0'')))))"

text \<open>The body of the \<open>try\<close>, lines 102 to 105.\<close>

definition fraction_value :: "env \<Rightarrow> json \<Rightarrow> pyexc + rat" where
  "fraction_value e avg_frame_rate =
     (case Fraction e avg_frame_rate of
        Inl x \<Rightarrow> Inl x
      | Inr fraction \<Rightarrow>
          if snd (quotient_of fraction) = 0 then Inl ZeroDivisionError else py_float fraction)"

text \<open>Lines 101 to 116: the \<open>try\<close> with its handler, the clamp and the result.\<close>

definition fps_of_rate :: "env \<Rightarrow> json \<Rightarrow> world \<Rightarrow> (error + rat) \<times> world" where
  "fps_of_rate e avg_frame_rate s =
     (case fraction_value e avg_frame_rate of
        Inl x \<Rightarrow>
          if x = ValueError \<or> x = ZeroDivisionError
          then (Inr 30, log (LogFpsFallback avg_frame_rate) s)
          else (Inl (Untyped x), s)
      | Inr v \<Rightarrow>
          (let value = max 1 (min 60 v) in (Inr value, log (LogFps value) s)))"

definition probe_command :: "path \<Rightarrow> string list" where
  "probe_command p =
     [''ffprobe'', ''-v'', ''error'', ''-select_streams'', ''v:0'', ''-print_format'', ''json'',
      ''-show_streams'', path_str p]"

definition probe_fps :: "env \<Rightarrow> path \<Rightarrow> world \<Rightarrow> (error + rat) \<times> world" where
  "probe_fps e p s =
     (if \<not> which e ''ffprobe'' then (Inl (BackgroundRemovalError (ToolNotFound ''ffprobe'')), s)
      else
        (let command = probe_command p;
             s1 = log (LogProbe command) s;
             (process, s2) = subprocess_run e command s1
         in if returncode process \<noteq> 0 then
              (Inl (BackgroundRemovalError (ProbeFailed (returncode process))),
               log (LogRaw (stderr process)) s2)
            else
              (case json_loads e (stdout process) of
                 None \<Rightarrow> (Inl (Untyped JSONDecodeError), s2)
               | Some data \<Rightarrow>
                   (case avg_frame_rate_of data of
                      Inl x \<Rightarrow> (Inl (Untyped x), s2)
                    | Inr avg_frame_rate \<Rightarrow> fps_of_rate e avg_frame_rate s2))))"

subsection \<open>The Frame Transformer, Extractor and Composer\<close>

definition remove_background_from_image ::
    "env \<Rightarrow> path \<Rightarrow> path \<Rightarrow> world \<Rightarrow> (error + unit) \<times> world" where
  "remove_background_from_image e source destination s =
     (let s1 = log (LogImageStart source) s
      in case rembg e of
           None \<Rightarrow> (Inl (BackgroundRemovalError RembgMissing), s1)
         | Some remove \<Rightarrow>
             (case read_bytes source s1 of
                (Inl x, s2) \<Rightarrow> (Inl x, s2)
              | (Inr data, s2) \<Rightarrow>
                  (let s3 = s2\<lparr>trace := trace s2 @ [Remove data]\<rparr>;
                       s4 = write_bytes destination (remove data) s3
                   in (Inr (), log (LogImageDone destination) s4))))"

definition frame_pattern :: "path \<Rightarrow> path" where
  "frame_pattern frames_dir = frames_dir @ [''frame_%07d.png'']"

definition extract_video_frames :: "env \<Rightarrow> path \<Rightarrow> path \<Rightarrow> world \<Rightarrow> (error + unit) \<times> world" where
  "extract_video_frames e source frames_dir s =
     run_ffmpeg e [''-i'', path_str source, path_str (frame_pattern frames_dir)] s"

text \<open>The command line of the extraction, as the runner builds it.\<close>

definition extract_command :: "path \<Rightarrow> path \<Rightarrow> string list" where
  "extract_command source frames_dir =
     [''ffmpeg'', ''-y'', ''-i'', path_str source, path_str (frame_pattern frames_dir)]"

definition compose_args :: "path \<Rightarrow> rat \<Rightarrow> path \<Rightarrow> string list" where
  "compose_args frames_dir fps destination =
     [''-framerate'', format_3f fps, ''-i'', path_str (frame_pattern frames_dir),
      ''-c:v'', ''libvpx-vp9'', ''-pix_fmt'', ''yuva420p'', path_str destination]"


definition compose_video_from_frames ::
    "env \<Rightarrow> path \<Rightarrow> rat \<Rightarrow> path \<Rightarrow> world \<Rightarrow> (error + unit) \<times> world" where
  "compose_video_from_frames e frames_dir fps destination s =
     (if glob_frames (files s) frames_dir = []
      then (Inl (BackgroundRemovalError (NoFramesToCompose frames_dir)), s)
      else run_ffmpeg e (compose_args frames_dir fps destination) s)"

text \<open>
  The loop of lines 196 to 200 over the sorted frame names, \<open>index\<close> counting from 1:
  the progress line, then the read, the removal and the write of the frame.
\<close>

fun process_frames ::
    "(bytes \<Rightarrow> bytes) \<Rightarrow> path \<Rightarrow> path \<Rightarrow> nat \<Rightarrow> nat \<Rightarrow> string list \<Rightarrow> world
      \<Rightarrow> (error + unit) \<times> world" where
  "process_frames rm frames_dir processed_dir count index [] s = (Inr (), s)"
| "process_frames rm frames_dir processed_dir count index (name # rest) s =
     (let s1 = log (LogFrame index count name) s
      in case read_bytes (frames_dir @ [name]) s1 of
           (Inl x, s2) \<Rightarrow> (Inl x, s2)
         | (Inr data, s2) \<Rightarrow>
             (let s3 = s2\<lparr>trace := trace s2 @ [Remove data]\<rparr>;
                  s4 = write_bytes (processed_dir @ [name]) (rm data) s3
              in process_frames rm frames_dir processed_dir count (Suc index) rest s4))"

subsection \<open>The Pipeline Orchestrator: \<open>remove_background\<close>\<close>

record BackgroundRemovalResult =
  source :: path
  processed :: path

definition is_image :: "path \<Rightarrow> bool" where
  "is_image p = (lower (suffix p) \<in> set IMAGE_EXTENSIONS)"

text \<open>
  \<open>remove_background\<close> is one function in the source. Its video branch, lines 178 to 207,
  is \<open>remove_background_video\<close> here; the function itself follows with the resolution of
  the paths, the first log line, the test of the extension and the image branch.
\<close>

definition remove_background_video ::
    "env \<Rightarrow> path \<Rightarrow> path \<Rightarrow> world \<Rightarrow> (error + BackgroundRemovalResult) \<times> world" where
  "remove_background_video e src workspace s =
     (let frames_dir = workspace @ [''frames'']
      in case extract_video_frames e src frames_dir s of
           (Inl x, s1) \<Rightarrow> (Inl x, s1)
         | (Inr _, s1) \<Rightarrow>
             (let processed_frames_dir = workspace @ [''frames_processed'']
              in case rembg e of
                   None \<Rightarrow> (Inl (BackgroundRemovalError RembgMissing), s1)
                 | Some remove \<Rightarrow>
                     (let frame_paths = sort (glob_frames (files s1) frames_dir)
                      in if frame_paths = [] then (Inl (BackgroundRemovalError NoFramesProduced), s1)
                         else
                           (case process_frames remove frames_dir processed_frames_dir
                                   (length frame_paths) 1 frame_paths s1 of
                              (Inl x, s2) \<Rightarrow> (Inl x, s2)
                            | (Inr _, s2) \<Rightarrow>
                                (case probe_fps e src s2 of
                                   (Inl x, s3) \<Rightarrow> (Inl x, s3)
                                 | (Inr fps, s3) \<Rightarrow>
                                     (let processed_video =
                                            workspace @ [stem src @ ''_bg_removed.webm'']
                                      in case compose_video_from_frames e processed_frames_dir fps
                                              processed_video s3 of
                                           (Inl x, s4) \<Rightarrow> (Inl x, s4)
                                         | (Inr _, s4) \<Rightarrow>
                                             (Inr \<lparr>source = src, processed = processed_video\<rparr>,
                                              log (LogVideoSaved processed_video) s4)))))))"

definition remove_background ::
    "env \<Rightarrow> path \<Rightarrow> path \<Rightarrow> world \<Rightarrow> (error + BackgroundRemovalResult) \<times> world" where
  "remove_background e source0 workspace0 s =
     (let src = resolve e source0;
          workspace = resolve e workspace0;
          s0 = log (LogStart src) s
      in if is_image src then
           (let processed_path = workspace @ [stem src @ ''_bg_removed.png'']
            in case remove_background_from_image e src processed_path s0 of
                 (Inl x, s1) \<Rightarrow> (Inl x, s1)
               | (Inr _, s1) \<Rightarrow> (Inr \<lparr>source = src, processed = processed_path\<rparr>, s1))
         else remove_background_video e src workspace s0)"

subsection \<open>The order of effects\<close>

text \<open>The events a call adds to the trace of the world it starts from.\<close>

definition new_events :: "world \<Rightarrow> world \<Rightarrow> event list" where
  "new_events s s' = drop (length (trace s)) (trace s')"

fun is_removal :: "event \<Rightarrow> bool" where
  "is_removal (Remove d) = True"
| "is_removal ev = False"

fun is_exec :: "event \<Rightarrow> bool" where
  "is_exec (Exec c rc) = True"
| "is_exec ev = False"














text \<open>
  What the probe sees when ffprobe is found, exits with code 0 and prints a text that
  decodes to a value whose first stream has the average frame rate \<open>v\<close>; \<open>s2\<close> is the
  world after the run.
\<close>

definition ffprobe_reports :: "env \<Rightarrow> path \<Rightarrow> world \<Rightarrow> json \<Rightarrow> world \<Rightarrow> bool" where
  "ffprobe_reports e p s v s2 =
     (which e ''ffprobe'' \<and>
      (let (process, s') = subprocess_run e (probe_command p) (log (LogProbe (probe_command p)) s)
       in returncode process = 0 \<and> s' = s2 \<and>
          map_option avg_frame_rate_of (json_loads e (stdout process)) = Some (Inr v)))"

subsection \<open>Example environments\<close>

definition ok_proc :: proc where
  "ok_proc = \<lparr>returncode = 0, stdout = [], stderr = []\<rparr>"

definition probe_json :: "json \<Rightarrow> json" where
  "probe_json v = JObject [(''streams'', JArray [JObject [(''avg_frame_rate'', v)]])]"

text \<open>
  An ffmpeg that extracts the given frames into \<^verbatim>\<open>/ws/frames\<close> and composes without
  complaint, and an ffprobe that ends as \<open>probe\<close> says.
\<close>

definition example_exec :: "(string \<times> bytes) list \<Rightarrow> proc \<Rightarrow> string list \<Rightarrow> fs \<Rightarrow> proc \<times> fs" where
  "example_exec frames probe command f =
     (case command of
        tool # y # a # rest \<Rightarrow>
          if tool = ''ffprobe'' then (probe, f)
          else if a = ''-i'' then (ok_proc, f([''ws'', ''frames''] := frames))
          else (ok_proc, f)
      | _ \<Rightarrow> (ok_proc, f))"

definition example_env :: "(string \<times> bytes) list \<Rightarrow> proc \<Rightarrow> json option \<Rightarrow> env" where
  "example_env frames probe data =
     \<lparr>which = (\<lambda>tool. True),
      exec = example_exec frames probe,
      json_loads = (\<lambda>txt. if txt = stdout probe then data else None),
      rembg = Some (map Suc),
      resolve = (\<lambda>p. p),
      max_str_digits = 4300,
      underscores = True,
      slash_blanks = False,
      max_power = 1000000\<rparr>"

definition failing_probe :: proc where
  "failing_probe = \<lparr>returncode = 1, stdout = ''out'', stderr = ''err''\<rparr>"

definition probe_out :: proc where
  "probe_out = \<lparr>returncode = 0, stdout = ''{...}'', stderr = []\<rparr>"

definition rate_env :: "string \<Rightarrow> env" where
  "rate_env r = example_env [] probe_out (Some (probe_json (JString r)))"

definition empty_world :: world where
  "empty_world = \<lparr>files = (\<lambda>d. []), trace = []\<rparr>"

definition clip :: path where
  "clip = [''in'', ''clip.mp4'']"



text \<open>
  Environments in which the clip extracts to no frame, with and without rembg, and two
  in which it extracts to two frames and to a single frame and ffprobe reports 24
  frames a second.
\<close>

definition no_frames_env :: env where
  "no_frames_env = example_env [] probe_out None"

definition no_rembg_env :: env where
  "no_rembg_env = no_frames_env\<lparr>rembg := None\<rparr>"



text \<open>The world after a successful run of ffprobe on the clip, started in the empty world.\<close>

definition probed_world :: world where
  "probed_world =
     \<lparr>files = (\<lambda>d. []),
      trace = [Log (LogProbe (probe_command clip)), Exec (probe_command clip) 0]\<rparr>"

section \<open>Properties\<close>

subsection \<open>The external tools\<close>

lemma run_ffmpeg_missing:
  "\<not> which e ''ffmpeg'' \<Longrightarrow>
     run_ffmpeg e args s = (Inl (BackgroundRemovalError (ToolNotFound ''ffmpeg'')), s)"
  by (simp add: run_ffmpeg_def)

lemma probe_fps_missing:
  "\<not> which e ''ffprobe'' \<Longrightarrow>
     probe_fps e p s = (Inl (BackgroundRemovalError (ToolNotFound ''ffprobe'')), s)"
  by (simp add: probe_fps_def)

text \<open>
  Claim C8. When the program is not on the search path, the ffmpeg runner and the probe
  each fail at once with the typed error that names the missing tool, and return the
  world as they got it: nothing is logged and no process is run.
\<close>

theorem tool_not_found_before_execution:
  "(\<not> which e ''ffmpeg'' \<longrightarrow>
      run_ffmpeg e args s = (Inl (BackgroundRemovalError (ToolNotFound ''ffmpeg'')), s)) \<and>
   (\<not> which e ''ffprobe'' \<longrightarrow>
      probe_fps e p s = (Inl (BackgroundRemovalError (ToolNotFound ''ffprobe'')), s))"
  by (simp add: run_ffmpeg_missing probe_fps_missing)

theorem tool_not_found_witness:
  "\<not> which (rate_env ''30/1''\<lparr>which := (\<lambda>tool. False)\<rparr>) ''ffmpeg'' \<and>
   run_ffmpeg (rate_env ''30/1''\<lparr>which := (\<lambda>tool. False)\<rparr>) [''-i'', ''/in/clip.mp4''] empty_world
     = (Inl (BackgroundRemovalError (ToolNotFound ''ffmpeg'')), empty_world) \<and>
   filter is_exec (trace (snd (run_ffmpeg (rate_env ''30/1''\<lparr>which := (\<lambda>tool. False)\<rparr>)
      [''-i'', ''/in/clip.mp4''] empty_world))) = [] \<and>
   \<not> which (rate_env ''30/1''\<lparr>which := (\<lambda>tool. False)\<rparr>) ''ffprobe'' \<and>
   probe_fps (rate_env ''30/1''\<lparr>which := (\<lambda>tool. False)\<rparr>) clip empty_world
     = (Inl (BackgroundRemovalError (ToolNotFound ''ffprobe'')), empty_world)"
  using tool_not_found_before_execution
    [of "rate_env ''30/1''\<lparr>which := (\<lambda>tool. False)\<rparr>" "[''-i'', ''/in/clip.mp4'']" empty_world clip]
  by (simp add: empty_world_def)

lemma probe_fps_run:
  assumes "which e ''ffprobe''"
    and "exec e (probe_command p) (files s) = (process, f')"
  shows "probe_fps e p s =
     (let s2 = s\<lparr>files := f',
                  trace := trace s @ [Log (LogProbe (probe_command p)),
                                      Exec (probe_command p) (returncode process)]\<rparr>
      in if returncode process \<noteq> 0 then
           (Inl (BackgroundRemovalError (ProbeFailed (returncode process))),
            log (LogRaw (stderr process)) s2)
         else
           (case json_loads e (stdout process) of
              None \<Rightarrow> (Inl (Untyped JSONDecodeError), s2)
            | Some data \<Rightarrow>
                (case avg_frame_rate_of data of
                   Inl x \<Rightarrow> (Inl (Untyped x), s2)
                 | Inr avg_frame_rate \<Rightarrow> fps_of_rate e avg_frame_rate s2)))"
  using assms by (simp add: probe_fps_def subprocess_run_def log_def Let_def)

text \<open>
  Claim C10. When ffprobe exits with code 0 and its standard output does not decode as
  JSON, the probe ends with the decoder's own exception, not with the module's typed
  error and not with the fallback rate: after the run of ffprobe nothing more is logged.
\<close>

theorem invalid_json_is_untyped_error:
  assumes "which e ''ffprobe''"
    and "exec e (probe_command p) (files s) = (process, f')"
    and "returncode process = 0"
    and "json_loads e (stdout process) = None"
  shows "probe_fps e p s =
           (Inl (Untyped JSONDecodeError),
            s\<lparr>files := f',
              trace := trace s @ [Log (LogProbe (probe_command p)), Exec (probe_command p) 0]\<rparr>)"
  using assms by (simp add: probe_fps_run Let_def)

theorem invalid_json_witness:
  "which (example_env [] probe_out None) ''ffprobe'' \<and>
   exec (example_env [] probe_out None) (probe_command clip) (files empty_world)
     = (probe_out, files empty_world) \<and>
   returncode probe_out = 0 \<and>
   json_loads (example_env [] probe_out None) (stdout probe_out) = None \<and>
   probe_fps (example_env [] probe_out None) clip empty_world
     = (Inl (Untyped JSONDecodeError),
        empty_world\<lparr>files := files empty_world,
          trace := trace empty_world @ [Log (LogProbe (probe_command clip)), Exec (probe_command clip) 0]\<rparr>)"
proof -
  have 1: "which (example_env [] probe_out None) ''ffprobe''"
    by (simp add: example_env_def)
  have 2: "exec (example_env [] probe_out None) (probe_command clip) (files empty_world)
     = (probe_out, files empty_world)"
    by (simp add: example_env_def example_exec_def probe_command_def)
  have 3: "returncode probe_out = 0" by (simp add: probe_out_def)
  have 4: "json_loads (example_env [] probe_out None) (stdout probe_out) = None"
    by (simp add: example_env_def)
  from invalid_json_is_untyped_error [OF 1 2 3 4] 1 2 3 4 show ?thesis by simp
qed

lemma run_ffmpeg_run:
  assumes "which e ''ffmpeg''"
    and "exec e (''ffmpeg'' # ''-y'' # args) (files s) = (process, f')"
  shows "run_ffmpeg e args s =
     (let command = ''ffmpeg'' # ''-y'' # args;
          s2 = s\<lparr>files := f',
                  trace := trace s @ [Log (LogRunFfmpeg command), Exec command (returncode process)]\<rparr>
      in if returncode process \<noteq> 0 then
           (Inl (BackgroundRemovalError (FfmpegFailed (returncode process))),
            s2\<lparr>trace := trace s2 @ [Log (LogRaw (stdout process)), Log (LogRaw (stderr process))]\<rparr>)
         else (Inr (), s2))"
  using assms by (simp add: run_ffmpeg_def subprocess_run_def log_def Let_def)

text \<open>
  Claim C4. The two functions differ when the process exits with a code other than 0:
  \<open>run_ffmpeg_run\<close> shows that the ffmpeg runner forwards the standard output and then the
  standard error to the sink, while the probe forwards the standard error only. Here
  ffprobe exits with code 1, having printed \<^verbatim>\<open>out\<close> and \<^verbatim>\<open>err\<close>; the line \<^verbatim>\<open>out\<close> never
  reaches the sink.
\<close>

theorem probe_failure_drops_stdout:
  "probe_fps (example_env [] failing_probe None) clip empty_world =
     (Inl (BackgroundRemovalError (ProbeFailed 1)),
      \<lparr>files = (\<lambda>d. []),
       trace = [Log (LogProbe (probe_command clip)), Exec (probe_command clip) 1,
                Log (LogRaw ''err'')]\<rparr>)"
  by (simp add: probe_fps_def subprocess_run_def log_def example_env_def example_exec_def
      probe_command_def failing_probe_def empty_world_def Let_def)

subsection \<open>The Frame Composer\<close>




























subsection \<open>The classification of the source\<close>

lemma lower_extension: "x \<in> set IMAGE_EXTENSIONS \<Longrightarrow> lower x = x"
  by (auto simp: IMAGE_EXTENSIONS_def lower_def lower_char_def)

lemma is_image_iff:
  "is_image p = (lower (suffix p) \<in>
      {''.png'', ''.jpg'', ''.jpeg'', ''.webp'', ''.bmp'', ''.tiff'', ''.tif''})"
  by (simp add: is_image_def IMAGE_EXTENSIONS_def)

lemma is_image_caseless:
  "is_image p = (\<exists>x \<in> set IMAGE_EXTENSIONS. lower (suffix p) = lower x)"
  unfolding is_image_def using lower_extension by force

lemma not_image_examples:
  "suffix p \<in> {''.gif'', ''.GIF'', ''.mp4'', ''.webm'', ''.xyz'', []} \<Longrightarrow> \<not> is_image p"
  by (auto simp: is_image_iff lower_def lower_char_def)

text \<open>
  Claim C9. The media kind is a function of the extension of the resolved source alone:
  the source is a still image exactly when its extension, lowered, is one of the seven
  recognized ones, so two sources whose extensions agree up to case are classified
  alike. Every other extension, \<^verbatim>\<open>.gif\<close> and unknown ones included, sends the pipeline down
  the video branch.
\<close>

theorem media_kind_classification:
  "is_image p = (\<exists>x \<in> set IMAGE_EXTENSIONS. lower (suffix p) = lower x) \<and>
   is_image p = (lower (suffix p) \<in>
      {''.png'', ''.jpg'', ''.jpeg'', ''.webp'', ''.bmp'', ''.tiff'', ''.tif''}) \<and>
   (lower (suffix p) = lower (suffix q) \<longrightarrow> is_image p = is_image q) \<and>
   (suffix p \<in> {''.gif'', ''.GIF'', ''.mp4'', ''.webm'', ''.xyz'', []} \<longrightarrow> \<not> is_image p) \<and>
   remove_background e src ws s =
     (if is_image (resolve e src)
      then (case remove_background_from_image e (resolve e src)
                   (resolve e ws @ [stem (resolve e src) @ ''_bg_removed.png''])
                   (log (LogStart (resolve e src)) s) of
              (Inl x, s1) \<Rightarrow> (Inl x, s1)
            | (Inr u, s1) \<Rightarrow>
                (Inr \<lparr>source = resolve e src,
                      processed = resolve e ws @ [stem (resolve e src) @ ''_bg_removed.png'']\<rparr>, s1))
      else remove_background_video e (resolve e src) (resolve e ws)
             (log (LogStart (resolve e src)) s))"
  using is_image_caseless [of p] is_image_iff [of p] not_image_examples [of p]
  by (simp add: remove_background_def Let_def is_image_def)

lemma suffix_examples:
  "suffix [''in'', ''cat.PNG''] = ''.PNG''" "suffix [''in'', ''dog.png''] = ''.png''"
  "suffix clip = ''.mp4''" "suffix [''in'', ''anim.gif''] = ''.gif''"
  by (simp_all add: suffix_def path_name_def rfind_dot_def clip_def)

theorem media_kind_witness:
  "lower (suffix [''in'', ''cat.PNG'']) = lower (suffix [''in'', ''dog.png'']) \<and>
   is_image [''in'', ''cat.PNG''] \<and> is_image [''in'', ''dog.png''] \<and>
   suffix [''in'', ''anim.gif''] \<in> {''.gif'', ''.GIF'', ''.mp4'', ''.webm'', ''.xyz'', []} \<and>
   \<not> is_image [''in'', ''anim.gif''] \<and>
   \<not> is_image clip \<and>
   remove_background (rate_env ''24/1'') clip [''ws''] empty_world
     = remove_background_video (rate_env ''24/1'') clip [''ws''] (log (LogStart clip) empty_world)"
proof -
  have 1: "lower (suffix [''in'', ''cat.PNG'']) = lower (suffix [''in'', ''dog.png''])"
    by (simp add: suffix_examples lower_def lower_char_def)
  have 2: "is_image [''in'', ''dog.png'']"
    by (simp add: is_image_iff suffix_examples lower_def lower_char_def)
  have 3: "suffix [''in'', ''anim.gif''] \<in> {''.gif'', ''.GIF'', ''.mp4'', ''.webm'', ''.xyz'', []}"
    "suffix clip \<in> {''.gif'', ''.GIF'', ''.mp4'', ''.webm'', ''.xyz'', []}"
    by (simp_all add: suffix_examples)
  have 4: "resolve (rate_env ''24/1'') clip = clip" "resolve (rate_env ''24/1'') [''ws''] = [''ws'']"
    by (simp_all add: rate_env_def example_env_def)
  note T1 = media_kind_classification
    [of "[''in'', ''cat.PNG'']" "[''in'', ''dog.png'']" "rate_env ''24/1''" clip "[''ws'']" empty_world]
  note T2 = media_kind_classification
    [of "[''in'', ''anim.gif'']" clip "rate_env ''24/1''" clip "[''ws'']" empty_world]
  note T3 = media_kind_classification
    [of clip clip "rate_env ''24/1''" clip "[''ws'']" empty_world]
  from T1 1 2 have a: "is_image [''in'', ''cat.PNG'']" by blast
  from T2 3 have b: "\<not> is_image [''in'', ''anim.gif'']" by blast
  from T3 3 have c: "\<not> is_image clip" by blast
  from T3 have "remove_background (rate_env ''24/1'') clip [''ws''] empty_world
     = (if is_image (resolve (rate_env ''24/1'') clip)
        then (case remove_background_from_image (rate_env ''24/1'') (resolve (rate_env ''24/1'') clip)
                   (resolve (rate_env ''24/1'') [''ws'']
                      @ [stem (resolve (rate_env ''24/1'') clip) @ ''_bg_removed.png''])
                   (log (LogStart (resolve (rate_env ''24/1'') clip)) empty_world) of
              (Inl x, s1) \<Rightarrow> (Inl x, s1)
            | (Inr u, s1) \<Rightarrow>
                (Inr \<lparr>source = resolve (rate_env ''24/1'') clip,
                      processed = resolve (rate_env ''24/1'') [''ws'']
                        @ [stem (resolve (rate_env ''24/1'') clip) @ ''_bg_removed.png'']\<rparr>, s1))
        else remove_background_video (rate_env ''24/1'') (resolve (rate_env ''24/1'') clip)
               (resolve (rate_env ''24/1'') [''ws''])
               (log (LogStart (resolve (rate_env ''24/1'') clip)) empty_world))"
    by (elim conjE)
  with c 4 have d: "remove_background (rate_env ''24/1'') clip [''ws''] empty_world
     = remove_background_video (rate_env ''24/1'') clip [''ws''] (log (LogStart clip) empty_world)"
    by simp
  from 1 2 3 a b c d show ?thesis by blast
qed

subsection \<open>The Rate Prober\<close>

lemma quotient_of_denom_nonzero: "snd (quotient_of q) \<noteq> 0"
  using quotient_of_denom_pos' [of q] by simp

lemma fraction_value_string:
  "fraction_value e (JString r) =
     (case fraction_of_string e r of Inl x \<Rightarrow> Inl x | Inr q \<Rightarrow> py_float q)"
  by (simp add: fraction_value_def quotient_of_denom_nonzero split: sum.splits)

lemma probe_fps_reports:
  "ffprobe_reports e p s v s2 \<Longrightarrow> probe_fps e p s = fps_of_rate e v s2"
  by (auto simp: ffprobe_reports_def probe_fps_def Let_def split: prod.splits option.splits)

lemma fps_of_rate_fallback:
  "fraction_value e v = Inl ValueError \<or> fraction_value e v = Inl ZeroDivisionError \<Longrightarrow>
     fps_of_rate e v s = (Inr 30, log (LogFpsFallback v) s)"
  by (auto simp: fps_of_rate_def)

lemma fps_of_rate_clamped:
  "fraction_value e v = Inr x \<Longrightarrow>
     fps_of_rate e v s = (Inr (max 1 (min 60 x)), log (LogFps (max 1 (min 60 x))) s)"
  by (simp add: fps_of_rate_def Let_def)

lemma fps_of_rate_range: "fst (fps_of_rate e v s) = Inr x \<Longrightarrow> 1 \<le> x \<and> x \<le> 60"
  by (auto simp: fps_of_rate_def Let_def split: sum.splits if_splits)

lemma probe_fps_range: "fst (probe_fps e p s) = Inr x \<Longrightarrow> 1 \<le> x \<and> x \<le> 60"
  using fps_of_rate_range
  by (auto simp: probe_fps_def Let_def split: prod.splits option.splits sum.splits if_splits)

lemmas parse_defs =
  fraction_of_string_def match_tail_def groups_ok_def too_long_def is_space_def is_digit_def
  digit_or_us_def int_of_digits_def Fract_of_int_quotient Let_def

lemma parse_30: "fraction_of_string e ''30/1'' = Inr 30" by (simp add: parse_defs)
lemma parse_0_0: "fraction_of_string e ''0/0'' = Inl ZeroDivisionError" by (simp add: parse_defs)
lemma parse_120: "fraction_of_string e ''120/1'' = Inr 120" by (simp add: parse_defs)
lemma parse_half_over_1: "fraction_of_string e ''0.5/1'' = Inl ValueError"
  by (simp add: parse_defs)
lemma parse_1_2: "fraction_of_string e ''1/2'' = Inr (1 / 2)" by (simp add: parse_defs)

lemma py_float_small: "\<bar>q\<bar> < 2 ^ 1024 - 2 ^ 970 \<Longrightarrow> py_float q = Inr (round_binary64 q)"
  by (simp add: py_float_def)

lemma round_30: "round_binary64 30 = 30" by code_simp
lemma round_120: "round_binary64 120 = 120" by code_simp
lemma round_half: "round_binary64 (1 / 2) = 1 / 2" by code_simp

lemma value_30: "fraction_value e (JString ''30/1'') = Inr 30"
  by (simp add: fraction_value_string parse_30 py_float_small round_30)
lemma value_0_0: "fraction_value e (JString ''0/0'') = Inl ZeroDivisionError"
  by (simp add: fraction_value_string parse_0_0)
lemma value_120: "fraction_value e (JString ''120/1'') = Inr 120"
  by (simp add: fraction_value_string parse_120 py_float_small round_120)
lemma value_half_over_1: "fraction_value e (JString ''0.5/1'') = Inl ValueError"
  by (simp add: fraction_value_string parse_half_over_1)
lemma value_1_2: "fraction_value e (JString ''1/2'') = Inr (1 / 2)"
  by (simp add: fraction_value_string parse_1_2 py_float_small round_half)

text \<open>
  Claim C1, amended. When ffprobe reports the average frame rate \<open>r\<close>, the probe maps
  \<^verbatim>\<open>30/1\<close> to 30, \<^verbatim>\<open>0/0\<close> to the fallback 30 with the warning, and \<^verbatim>\<open>120/1\<close> to 60. The string
  \<^verbatim>\<open>0.5/1\<close> is not a literal \<open>Fraction\<close> accepts (a decimal point and a denominator exclude
  each other), so it gives the fallback 30 with the warning and not 1; the lower bound
  shows on \<^verbatim>\<open>1/2\<close>, which is clamped to 1.
\<close>

theorem rate_parsing_examples:
  assumes "ffprobe_reports e p s (JString r) s2"
  shows "(r = ''30/1'' \<longrightarrow> probe_fps e p s = (Inr 30, log (LogFps 30) s2)) \<and>
         (r = ''0/0'' \<longrightarrow> probe_fps e p s = (Inr 30, log (LogFpsFallback (JString ''0/0'')) s2)) \<and>
         (r = ''120/1'' \<longrightarrow> probe_fps e p s = (Inr 60, log (LogFps 60) s2)) \<and>
         (r = ''0.5/1'' \<longrightarrow>
            probe_fps e p s = (Inr 30, log (LogFpsFallback (JString ''0.5/1'')) s2)) \<and>
         (r = ''1/2'' \<longrightarrow> probe_fps e p s = (Inr 1, log (LogFps 1) s2))"
  using probe_fps_reports [OF assms]
    fps_of_rate_clamped [OF value_30, of e s2] fps_of_rate_clamped [OF value_120, of e s2]
    fps_of_rate_clamped [OF value_1_2, of e s2]
    fps_of_rate_fallback [of e "JString ''0/0''" s2] fps_of_rate_fallback [of e "JString ''0.5/1''" s2]
  by (simp add: value_0_0 value_half_over_1)

lemma rate_env_reports:
  "r \<noteq> [] \<Longrightarrow> ffprobe_reports (rate_env r) clip empty_world (JString r) probed_world"
  by (simp add: ffprobe_reports_def rate_env_def example_env_def example_exec_def
      subprocess_run_def log_def probe_command_def probe_out_def empty_world_def
      probed_world_def probe_json_def avg_frame_rate_of_def py_or_def)

theorem rate_parsing_witness:
  "ffprobe_reports (rate_env ''30/1'') clip empty_world (JString ''30/1'') probed_world \<and>
   probe_fps (rate_env ''30/1'') clip empty_world = (Inr 30, log (LogFps 30) probed_world) \<and>
   ffprobe_reports (rate_env ''0/0'') clip empty_world (JString ''0/0'') probed_world \<and>
   probe_fps (rate_env ''0/0'') clip empty_world
     = (Inr 30, log (LogFpsFallback (JString ''0/0'')) probed_world) \<and>
   ffprobe_reports (rate_env ''120/1'') clip empty_world (JString ''120/1'') probed_world \<and>
   probe_fps (rate_env ''120/1'') clip empty_world = (Inr 60, log (LogFps 60) probed_world) \<and>
   ffprobe_reports (rate_env ''1/2'') clip empty_world (JString ''1/2'') probed_world \<and>
   probe_fps (rate_env ''1/2'') clip empty_world = (Inr 1, log (LogFps 1) probed_world) \<and>
   ffprobe_reports (rate_env ''0.5/1'') clip empty_world (JString ''0.5/1'') probed_world \<and>
   probe_fps (rate_env ''0.5/1'') clip empty_world
     = (Inr 30, log (LogFpsFallback (JString ''0.5/1'')) probed_world)"
proof -
  have 1: "ffprobe_reports (rate_env ''30/1'') clip empty_world (JString ''30/1'') probed_world"
    and 2: "ffprobe_reports (rate_env ''0/0'') clip empty_world (JString ''0/0'') probed_world"
    and 3: "ffprobe_reports (rate_env ''120/1'') clip empty_world (JString ''120/1'') probed_world"
    and 4: "ffprobe_reports (rate_env ''1/2'') clip empty_world (JString ''1/2'') probed_world"
    and 5: "ffprobe_reports (rate_env ''0.5/1'') clip empty_world (JString ''0.5/1'') probed_world"
    by (rule rate_env_reports, simp)+
  from rate_parsing_examples [OF 1] rate_parsing_examples [OF 2] rate_parsing_examples [OF 3]
    rate_parsing_examples [OF 4] rate_parsing_examples [OF 5] 1 2 3 4 5
  show ?thesis by simp
qed

text \<open>The claim as stated fails on \<^verbatim>\<open>0.5/1\<close>: the probe returns 30, not 1.\<close>

theorem rate_parsing_counterexample:
  "ffprobe_reports (rate_env ''0.5/1'') clip empty_world (JString ''0.5/1'') probed_world \<and>
   probe_fps (rate_env ''0.5/1'') clip empty_world
     = (Inr 30, log (LogFpsFallback (JString ''0.5/1'')) probed_world) \<and>
   fst (probe_fps (rate_env ''0.5/1'') clip empty_world) \<noteq> Inr 1"
proof -
  have r: "ffprobe_reports (rate_env ''0.5/1'') clip empty_world (JString ''0.5/1'') probed_world"
    by (rule rate_env_reports) simp
  have "probe_fps (rate_env ''0.5/1'') clip empty_world
     = (Inr 30, log (LogFpsFallback (JString ''0.5/1'')) probed_world)"
    using probe_fps_reports [OF r]
      fps_of_rate_fallback [of "rate_env ''0.5/1''" "JString ''0.5/1''" probed_world]
    by (simp add: value_half_over_1)
  with r show ?thesis by simp
qed

text \<open>
  Claim C6. The string \<^verbatim>\<open>1E309\<close> is a literal \<open>Fraction\<close> accepts, and its denominator is 1.
  \<open>float\<close> of the fraction raises OverflowError inside the \<open>try\<close>; the handler names only
  ValueError and ZeroDivisionError, so the exception leaves the probe: no rate is
  returned, neither the fallback nor the upper bound 60, and no warning is logged.
\<close>

theorem overflow_escapes_handler:
  "fraction_of_string (rate_env ''1E309'') ''1E309'' = Inr (10 ^ 309) \<and>
   probe_fps (rate_env ''1E309'') clip empty_world = (Inl (Untyped OverflowError), probed_world)"
proof -
  have p: "fraction_of_string (rate_env ''1E309'') ''1E309'' = Inr (10 ^ 309)"
    by (simp add: parse_defs rate_env_def example_env_def Fract_of_int_eq)
  have r: "ffprobe_reports (rate_env ''1E309'') clip empty_world (JString ''1E309'') probed_world"
    by (rule rate_env_reports) simp
  have "fps_of_rate (rate_env ''1E309'') (JString ''1E309'') probed_world
      = (Inl (Untyped OverflowError), probed_world)"
    by (simp add: fps_of_rate_def fraction_value_string p py_float_def)
  with probe_fps_reports [OF r] p show ?thesis by simp
qed

subsection \<open>The Frame Transformer\<close>








subsection \<open>The Pipeline Orchestrator\<close>

lemma extraction_succeeds:
  assumes "which e ''ffmpeg''"
    and "exec e (extract_command src fd) (files s) = (process, f')"
    and "returncode process = 0"
  shows "extract_video_frames e src fd s =
     (Inr (), s\<lparr>files := f',
                 trace := trace s @ [Log (LogRunFfmpeg (extract_command src fd)),
                                     Exec (extract_command src fd) 0]\<rparr>)"
  using assms by (simp add: extract_video_frames_def extract_command_def run_ffmpeg_run Let_def)

text \<open>
  Claim C5, amended. Let the source be a video whose extraction succeeds and leaves no
  frame file. Then the pipeline fails in the world the extraction left: nothing is read,
  removed or written, and the removal capability is never called. The error is the one
  for no frames when rembg can be imported; when it cannot, the import, which comes
  first, fails with the error for the missing library.
\<close>

theorem zero_frames_fail_before_transformation:
  assumes "\<not> is_image (resolve e src)"
    and "which e ''ffmpeg''"
    and "exec e (extract_command (resolve e src) (resolve e ws @ [''frames''])) (files s)
           = (process, f')"
    and "returncode process = 0"
    and "glob_frames f' (resolve e ws @ [''frames'']) = []"
  shows "remove_background e src ws s =
     (Inl (BackgroundRemovalError
             (case rembg e of None \<Rightarrow> RembgMissing | Some rm \<Rightarrow> NoFramesProduced)),
      s\<lparr>files := f',
        trace := trace s @
          [Log (LogStart (resolve e src)),
           Log (LogRunFfmpeg (extract_command (resolve e src) (resolve e ws @ [''frames'']))),
           Exec (extract_command (resolve e src) (resolve e ws @ [''frames''])) 0]\<rparr>) \<and>
     filter is_removal (new_events s (snd (remove_background e src ws s))) = []"
proof -
  let ?s0 = "log (LogStart (resolve e src)) s"
  from assms(3) have x: "exec e (extract_command (resolve e src) (resolve e ws @ [''frames'']))
      (files ?s0) = (process, f')" by (simp add: log_def)
  have r: "remove_background e src ws s =
     (Inl (BackgroundRemovalError
             (case rembg e of None \<Rightarrow> RembgMissing | Some rm \<Rightarrow> NoFramesProduced)),
      s\<lparr>files := f',
        trace := trace s @
          [Log (LogStart (resolve e src)),
           Log (LogRunFfmpeg (extract_command (resolve e src) (resolve e ws @ [''frames'']))),
           Exec (extract_command (resolve e src) (resolve e ws @ [''frames''])) 0]\<rparr>)"
  proof -
    note ex = extraction_succeeds [OF assms(2) x assms(4)]
    show ?thesis using assms(1,5) ex [unfolded log_def]
      by (simp add: remove_background_def remove_background_video_def Let_def log_def
          split: option.splits)
  qed
  show ?thesis unfolding r by (simp add: new_events_def)
qed

lemma clip_is_video: "\<not> is_image clip"
  by (rule not_image_examples) (simp add: suffix_examples)

theorem zero_frames_witness:
  "\<not> is_image (resolve no_frames_env clip) \<and>
   which no_frames_env ''ffmpeg'' \<and>
   exec no_frames_env (extract_command clip [''ws'', ''frames'']) (files empty_world)
     = (ok_proc, (files empty_world)([''ws'', ''frames''] := [])) \<and>
   returncode ok_proc = 0 \<and>
   glob_frames ((files empty_world)([''ws'', ''frames''] := [])) [''ws'', ''frames''] = [] \<and>
   remove_background no_frames_env clip [''ws''] empty_world =
     (Inl (BackgroundRemovalError NoFramesProduced),
      \<lparr>files = (\<lambda>d. []),
       trace = [Log (LogStart clip),
                Log (LogRunFfmpeg (extract_command clip [''ws'', ''frames''])),
                Exec (extract_command clip [''ws'', ''frames'']) 0]\<rparr>)"
proof -
  have v: "resolve no_frames_env clip = clip" "resolve no_frames_env [''ws''] = [''ws'']"
    by (simp_all add: no_frames_env_def example_env_def)
  have 1: "\<not> is_image (resolve no_frames_env clip)" by (simp add: v clip_is_video)
  have 2: "which no_frames_env ''ffmpeg''" by (simp add: no_frames_env_def example_env_def)
  have 3: "exec no_frames_env (extract_command (resolve no_frames_env clip)
        (resolve no_frames_env [''ws''] @ [''frames''])) (files empty_world)
     = (ok_proc, (files empty_world)([''ws'', ''frames''] := []))"
    by (simp add: no_frames_env_def example_env_def example_exec_def extract_command_def)
  have 4: "returncode ok_proc = 0" by (simp add: ok_proc_def)
  have 5: "glob_frames ((files empty_world)([''ws'', ''frames''] := []))
      (resolve no_frames_env [''ws''] @ [''frames'']) = []"
    by (simp add: glob_frames_def v)
  have 6: "(\<lambda>d. [])([''ws'', ''frames''] := []) = (\<lambda>d::path. [] :: (string \<times> bytes) list)"
    by auto
  have 7: "rembg no_frames_env = Some (map Suc)" by (simp add: no_frames_env_def example_env_def)
  from zero_frames_fail_before_transformation [OF 1 2 3 4 5] 1 2 3 4 5
  show ?thesis by (simp add: v 6 7 empty_world_def)
qed

text \<open>
  The claim as stated fails where rembg cannot be imported: the extraction succeeds
  with no frame, and the error is the one for the missing library.
\<close>

theorem zero_frames_counterexample:
  "\<not> is_image clip \<and>
   extract_video_frames no_rembg_env clip [''ws'', ''frames''] (log (LogStart clip) empty_world)
     = (Inr (),
        \<lparr>files = (\<lambda>d. []),
         trace = [Log (LogStart clip),
                  Log (LogRunFfmpeg (extract_command clip [''ws'', ''frames''])),
                  Exec (extract_command clip [''ws'', ''frames'']) 0]\<rparr>) \<and>
   glob_frames (\<lambda>d. []) [''ws'', ''frames''] = [] \<and>
   fst (remove_background no_rembg_env clip [''ws''] empty_world)
     = Inl (BackgroundRemovalError RembgMissing) \<and>
   fst (remove_background no_rembg_env clip [''ws''] empty_world)
     \<noteq> Inl (BackgroundRemovalError NoFramesProduced)"
proof -
  have w: "which no_rembg_env ''ffmpeg''"
    by (simp add: no_rembg_env_def no_frames_env_def example_env_def)
  have x: "exec no_rembg_env (extract_command clip [''ws'', ''frames''])
       (files (log (LogStart clip) empty_world)) = (ok_proc, (\<lambda>d. []))"
    by (auto simp: no_rembg_env_def no_frames_env_def example_env_def example_exec_def
        extract_command_def log_def empty_world_def)
  have c: "returncode ok_proc = 0" by (simp add: ok_proc_def)
  have e: "extract_video_frames no_rembg_env clip [''ws'', ''frames''] (log (LogStart clip) empty_world)
     = (Inr (),
        \<lparr>files = (\<lambda>d. []),
         trace = [Log (LogStart clip),
                  Log (LogRunFfmpeg (extract_command clip [''ws'', ''frames''])),
                  Exec (extract_command clip [''ws'', ''frames'']) 0]\<rparr>)"
    using extraction_succeeds [OF w x c] by (simp add: log_def empty_world_def)
  have v: "resolve no_rembg_env p = p" "rembg no_rembg_env = None" for p
    by (simp_all add: no_rembg_env_def no_frames_env_def example_env_def)
  have r: "fst (remove_background no_rembg_env clip [''ws''] empty_world)
     = Inl (BackgroundRemovalError RembgMissing)"
    by (simp add: remove_background_def remove_background_video_def Let_def clip_is_video v e)
  from clip_is_video e r show ?thesis by (simp add: glob_frames_def)
qed

subsection \<open>The order of the stages\<close>








































subsection \<open>The frame loop of the orchestrator\<close>













end
